theory Spec2Isabelle
  imports Complex_Main "HOL-Library.Word"
begin

section \<open>GridManager: construction of the managed grid\<close>

text \<open>
  A shallow embedding of \<^verbatim>\<open>opm/grid/GridManager.cpp\<close>. The file is glue code: it
  reads a grid description, optionally runs the minimum-pore-volume pass, calls a grid
  factory and keeps the returned handle. The factories, the file reader and the
  pore-volume processor are only called here: they are parameters of the model, and
  every call a constructor makes to one of them is recorded, in order, in a trace. The
  classes of the parser library are data that the source reads through accessors.

  A C++ \<^verbatim>\<open>int\<close> is a 32-bit word, read as a signed value with \<open>sint\<close>. A
  \<^verbatim>\<open>double\<close> is a value of a type variable \<open>'d\<close>: the file never computes with doubles,
  it only moves them and writes the literals \<^verbatim>\<open>0.0\<close> and \<^verbatim>\<open>1.0\<close>, so the
  model needs no more of them than \<open>0\<close> and \<open>1\<close>. A pointer that may be null is an
  \<open>option\<close>, with \<open>None\<close> for the null pointer.
\<close>

subsection \<open>Data\<close>

type_synonym cint = "32 word"

text \<open>
  Exceptions. \<open>RuntimeError msg\<close> is the \<^verbatim>\<open>std::runtime_error\<close> raised by
  \<^verbatim>\<open>OPM_THROW(std::runtime_error, msg)\<close> in this file; it carries the message operand
  of the macro (the macro, defined in ErrorMacros.hpp, may decorate it with the source
  location). \<open>DeckException\<close> is any exception raised inside an accessor of the parser
  library.
\<close>

datatype exn = RuntimeError string | DeckException

text \<open>The values of \<^verbatim>\<open>MinpvMode::ModeEnum\<close>.\<close>

datatype ModeEnum = Inactive | EclSTD | OpmFIL

text \<open>
  Modelled from the spec: class \<^verbatim>\<open>EclipseGrid\<close> of the parser library, the structured
  geological source of section 4.2 (dimensions, areal transform, pillar coordinates,
  corner elevations, activity flags, the pinch flag and thickness, the minpv mode and
  value). Reading it has no effect on it, so each accessor the source calls is a field.
  The three \<^verbatim>\<open>export\<close> methods overwrite the vector they are given; the field is what
  they leave in it. \<^verbatim>\<open>getNX()\<close> is a cell count, a natural number.
\<close>

record 'd EclipseGrid =
  getNX :: nat
  getNY :: nat
  getNZ :: nat
  exportMAPAXES :: "'d list"
  exportCOORD :: "'d list"
  exportZCORN :: "'d list"
  exportACTNUM :: "cint list"
  getMinpvMode :: ModeEnum
  getMinpvValue :: 'd
  isPinchActive :: bool
  getPinchThresholdThickness :: 'd

text \<open>
  Modelled from the spec: \<^verbatim>\<open>struct grdecl\<close> (declared in preprocess.h), the input of
  the corner-point assembler: \<^verbatim>\<open>int dims[3]\<close> and four array pointers. The record is
  generic in what stands for a pointer to doubles (\<open>'pd\<close>) and a pointer to ints
  (\<open>'pi\<close>). In \<^verbatim>\<open>initFromEclipseGrid\<close> the pointers are the \<^verbatim>\<open>data()\<close> of local
  vectors that outlive the assembler call, and the array a pointer designates when the
  assembler runs stands for it. In \<^verbatim>\<open>createGrdecl\<close> the pointers are addresses into
  an explicit store, since there it matters which buffer a pointer designates.
\<close>

record ('pd, 'pi) grdecl =
  dims :: "cint \<times> cint \<times> cint"
  coord :: 'pd
  zcorn :: 'pd
  actnum :: 'pi
  mapaxes :: 'pd

text \<open>
  The manager: its only member is the handle \<^verbatim>\<open>ug_\<close>, a pointer to the grid (\<open>'g\<close>
  is the grid it points to). The field is named \<open>ug_ptr\<close>, a name that ends in an
  underscore being reserved.
\<close>

record 'g GridManager =
  ug_ptr :: "'g option"

text \<open>
  The calls \<^verbatim>\<open>initFromEclipseGrid\<close> makes to code outside this file, each with its
  arguments and what it returned:
  \<^item> \<^verbatim>\<open>MinpvProcessor mp(dims[0], dims[1], dims[2]); mp.process(pv, minpv, actnum, opmfil, zcorn)\<close>,
    which returns the number of modified cells and may have written to \<^verbatim>\<open>actnum\<close> and
    \<^verbatim>\<open>zcorn\<close> (the result holds their contents afterwards), or raises;
  \<^item> \<^verbatim>\<open>create_grid_cornerpoint(&g, z_tolerance)\<close>, which returns a handle or null;
  \<^item> \<^verbatim>\<open>attach_zcorn_copy(ug, zcorn)\<close>, which writes to the grid \<^verbatim>\<open>ug\<close> points to.
\<close>

datatype ('d, 'g) call =
    Process "cint \<times> cint \<times> cint" "'d list" 'd "cint list" bool "'d list"
      "exn + cint \<times> cint list \<times> 'd list"
  | CreateGridCornerpoint "('d list, cint list) grdecl" 'd "'g option"
  | AttachZcornCopy 'g "'d list"

text \<open>
  The functions of other files that the source calls. They are parameters of the model:
  every theorem holds whatever they compute.
\<close>

record ('d, 'g) externals =
  minpv_process :: "cint \<times> cint \<times> cint \<Rightarrow> 'd list \<Rightarrow> 'd \<Rightarrow> cint list \<Rightarrow> bool \<Rightarrow> 'd list
                     \<Rightarrow> exn + cint \<times> cint list \<times> 'd list"
  create_grid_cornerpoint :: "('d list, cint list) grdecl \<Rightarrow> 'd \<Rightarrow> 'g option"
  attach_zcorn_copy :: "'g \<Rightarrow> 'd list \<Rightarrow> 'g"
  create_grid_cart2d :: "cint \<Rightarrow> cint \<Rightarrow> 'd \<Rightarrow> 'd \<Rightarrow> 'g option"
  create_grid_cart3d :: "cint \<Rightarrow> cint \<Rightarrow> cint \<Rightarrow> 'g option"
  create_grid_hexa3d :: "cint \<Rightarrow> cint \<Rightarrow> cint \<Rightarrow> 'd \<Rightarrow> 'd \<Rightarrow> 'd \<Rightarrow> 'g option"
  read_grid :: "string \<Rightarrow> 'g option"

subsection \<open>Construction from an EclipseGrid\<close>

text \<open>
  \<^verbatim>\<open>GridManager::initFromEclipseGrid\<close> (lines 132 to 174). The member function
  assigns \<^verbatim>\<open>ug_\<close> of the manager under construction; the model takes that manager and
  returns the trace of calls together with either the exception that left the function
  or the manager as the function leaves it.

  \<^verbatim>\<open>g.zcorn\<close> and \<^verbatim>\<open>zcorn.data()\<close> are one pointer, and \<^verbatim>\<open>g.actnum\<close> is the
  \<^verbatim>\<open>data()\<close> of the vector handed to \<^verbatim>\<open>process\<close>: what the processor writes is
  what the assembler and the attach step read. So the arrays in \<open>g\<close> are the contents
  after the filtering step. Storing \<^verbatim>\<open>getNX()\<close> in \<^verbatim>\<open>int dims[0]\<close> keeps its low
  32 bits (\<open>of_nat\<close>).
\<close>

definition initFromEclipseGrid ::
  "('d::zero, 'g) externals \<Rightarrow> 'g GridManager \<Rightarrow> 'd EclipseGrid \<Rightarrow> 'd list
     \<Rightarrow> ('d, 'g) call list \<times> (exn + 'g GridManager)" where
  "initFromEclipseGrid ext this inputGrid poreVolumes =
    (let g_dims = (of_nat (getNX inputGrid), of_nat (getNY inputGrid), of_nat (getNZ inputGrid));
         mapaxes = exportMAPAXES inputGrid;
         coord = exportCOORD inputGrid;
         zcorn = exportZCORN inputGrid;
         actnum = exportACTNUM inputGrid;
         (calls, filtered) =
           (if poreVolumes \<noteq> [] \<and> getMinpvMode inputGrid \<noteq> Inactive then
              (let minpv_value = getMinpvValue inputGrid;
                   opmfil = True;
                   r = minpv_process ext g_dims poreVolumes minpv_value actnum opmfil zcorn
               in ([Process g_dims poreVolumes minpv_value actnum opmfil zcorn r], r))
            else ([], Inr (0, actnum, zcorn)))
     in case filtered of
          Inl e \<Rightarrow> (calls, Inl e)
        | Inr (cells_modified, actnum', zcorn') \<Rightarrow>
            (let z_tolerance =
                   (if isPinchActive inputGrid then getPinchThresholdThickness inputGrid else 0);
                 g = \<lparr>dims = g_dims, coord = coord, zcorn = zcorn', actnum = actnum',
                      mapaxes = mapaxes\<rparr>;
                 made = create_grid_cornerpoint ext g z_tolerance;
                 calls = calls @ [CreateGridCornerpoint g z_tolerance made]
             in case made of
                  None \<Rightarrow> (calls, Inl (RuntimeError ''Failed to construct grid.''))
                | Some ug \<Rightarrow>
                    if 0 < sint cells_modified then
                      (calls @ [AttachZcornCopy ug zcorn'],
                       Inr (this\<lparr>ug_ptr := Some (attach_zcorn_copy ext ug zcorn')\<rparr>))
                    else (calls, Inr (this\<lparr>ug_ptr := Some ug\<rparr>))))"

subsection \<open>The constructors and the accessor\<close>

text \<open>
  The calls the other constructors make: the two cartesian factories, the hexahedral
  one and the file reader, each with its arguments and the handle it returned.
\<close>

datatype ('d, 'g) factory_call =
    InitCall "('d, 'g) call"
  | CreateGridCart2d cint cint 'd 'd "'g option"
  | CreateGridCart3d cint cint cint "'g option"
  | CreateGridHexa3d cint cint cint 'd 'd 'd "'g option"
  | ReadGrid string "'g option"

text \<open>
  The seven constructors (lines 41 to 109), named after their parameters. The two that
  take an \<^verbatim>\<open>EclipseGrid\<close> exist when the library is built with \<^verbatim>\<open>HAVE_ECL_INPUT\<close>;
  they initialise \<^verbatim>\<open>ug_\<close> to null and call \<^verbatim>\<open>initFromEclipseGrid\<close>. The others
  assign the factory's result to \<^verbatim>\<open>ug_\<close> and throw when it is null. A constructor
  that throws yields no object: the result is \<open>Inl\<close> of the exception, and only a
  constructor that returns yields \<open>Inr\<close> of the manager.
\<close>

definition GridManager_inputGrid ::
  "('d::{zero,one}, 'g) externals \<Rightarrow> 'd EclipseGrid
     \<Rightarrow> ('d, 'g) factory_call list \<times> (exn + 'g GridManager)" where
  "GridManager_inputGrid ext inputGrid =
    (let (calls, r) = initFromEclipseGrid ext \<lparr>ug_ptr = None\<rparr> inputGrid []
     in (map InitCall calls, r))"

definition GridManager_inputGrid_poreVolumes ::
  "('d::{zero,one}, 'g) externals \<Rightarrow> 'd EclipseGrid \<Rightarrow> 'd list
     \<Rightarrow> ('d, 'g) factory_call list \<times> (exn + 'g GridManager)" where
  "GridManager_inputGrid_poreVolumes ext inputGrid poreVolumes =
    (let (calls, r) = initFromEclipseGrid ext \<lparr>ug_ptr = None\<rparr> inputGrid poreVolumes
     in (map InitCall calls, r))"

definition GridManager_nx_ny ::
  "('d::{zero,one}, 'g) externals \<Rightarrow> cint \<Rightarrow> cint
     \<Rightarrow> ('d, 'g) factory_call list \<times> (exn + 'g GridManager)" where
  "GridManager_nx_ny ext nx ny =
    (let ug = create_grid_cart2d ext nx ny 1 1;
         calls = [CreateGridCart2d nx ny 1 1 ug]
     in if ug = None then (calls, Inl (RuntimeError ''Failed to construct grid.''))
        else (calls, Inr \<lparr>ug_ptr = ug\<rparr>))"

definition GridManager_nx_ny_dx_dy ::
  "('d::{zero,one}, 'g) externals \<Rightarrow> cint \<Rightarrow> cint \<Rightarrow> 'd \<Rightarrow> 'd
     \<Rightarrow> ('d, 'g) factory_call list \<times> (exn + 'g GridManager)" where
  "GridManager_nx_ny_dx_dy ext nx ny dx dy =
    (let ug = create_grid_cart2d ext nx ny dx dy;
         calls = [CreateGridCart2d nx ny dx dy ug]
     in if ug = None then (calls, Inl (RuntimeError ''Failed to construct grid.''))
        else (calls, Inr \<lparr>ug_ptr = ug\<rparr>))"

definition GridManager_nx_ny_nz ::
  "('d::{zero,one}, 'g) externals \<Rightarrow> cint \<Rightarrow> cint \<Rightarrow> cint
     \<Rightarrow> ('d, 'g) factory_call list \<times> (exn + 'g GridManager)" where
  "GridManager_nx_ny_nz ext nx ny nz =
    (let ug = create_grid_cart3d ext nx ny nz;
         calls = [CreateGridCart3d nx ny nz ug]
     in if ug = None then (calls, Inl (RuntimeError ''Failed to construct grid.''))
        else (calls, Inr \<lparr>ug_ptr = ug\<rparr>))"

definition GridManager_nx_ny_nz_dx_dy_dz ::
  "('d::{zero,one}, 'g) externals \<Rightarrow> cint \<Rightarrow> cint \<Rightarrow> cint \<Rightarrow> 'd \<Rightarrow> 'd \<Rightarrow> 'd
     \<Rightarrow> ('d, 'g) factory_call list \<times> (exn + 'g GridManager)" where
  "GridManager_nx_ny_nz_dx_dy_dz ext nx ny nz dx dy dz =
    (let ug = create_grid_hexa3d ext nx ny nz dx dy dz;
         calls = [CreateGridHexa3d nx ny nz dx dy dz ug]
     in if ug = None then (calls, Inl (RuntimeError ''Failed to construct grid.''))
        else (calls, Inr \<lparr>ug_ptr = ug\<rparr>))"

definition GridManager_input_filename ::
  "('d::{zero,one}, 'g) externals \<Rightarrow> string
     \<Rightarrow> ('d, 'g) factory_call list \<times> (exn + 'g GridManager)" where
  "GridManager_input_filename ext input_filename =
    (let ug = read_grid ext input_filename;
         calls = [ReadGrid input_filename ug]
     in if ug = None
        then (calls, Inl (RuntimeError (''Failed to read grid from file '' @ input_filename)))
        else (calls, Inr \<lparr>ug_ptr = ug\<rparr>))"

text \<open>
  A construction request is the argument list of one constructor; \<open>construct\<close> is the
  overload resolution of \<^verbatim>\<open>GridManager(...)\<close>.
\<close>

datatype 'd ctor_args =
    Args_inputGrid "'d EclipseGrid"
  | Args_inputGrid_poreVolumes "'d EclipseGrid" "'d list"
  | Args_nx_ny cint cint
  | Args_nx_ny_dx_dy cint cint 'd 'd
  | Args_nx_ny_nz cint cint cint
  | Args_nx_ny_nz_dx_dy_dz cint cint cint 'd 'd 'd
  | Args_input_filename string

fun construct ::
  "('d::{zero,one}, 'g) externals \<Rightarrow> 'd ctor_args
     \<Rightarrow> ('d, 'g) factory_call list \<times> (exn + 'g GridManager)" where
  "construct ext (Args_inputGrid inputGrid) = GridManager_inputGrid ext inputGrid"
| "construct ext (Args_inputGrid_poreVolumes inputGrid poreVolumes) =
     GridManager_inputGrid_poreVolumes ext inputGrid poreVolumes"
| "construct ext (Args_nx_ny nx ny) = GridManager_nx_ny ext nx ny"
| "construct ext (Args_nx_ny_dx_dy nx ny dx dy) = GridManager_nx_ny_dx_dy ext nx ny dx dy"
| "construct ext (Args_nx_ny_nz nx ny nz) = GridManager_nx_ny_nz ext nx ny nz"
| "construct ext (Args_nx_ny_nz_dx_dy_dz nx ny nz dx dy dz) =
     GridManager_nx_ny_nz_dx_dy_dz ext nx ny nz dx dy dz"
| "construct ext (Args_input_filename input_filename) =
     GridManager_input_filename ext input_filename"

text \<open>
  \<^verbatim>\<open>const UnstructuredGrid* GridManager::c_grid() const\<close> (lines 123 to 126): the
  value returned, and the manager after the call.
\<close>

definition c_grid :: "'g GridManager \<Rightarrow> 'g option \<times> 'g GridManager" where
  "c_grid this = (ug_ptr this, this)"

text \<open>
  \<^verbatim>\<open>GridManager::~GridManager()\<close> (lines 112 to 115): the handle given to
  \<^verbatim>\<open>destroy_grid\<close>.
\<close>

definition destroy_GridManager :: "'g GridManager \<Rightarrow> 'g option" where
  "destroy_GridManager this = ug_ptr this"

subsection \<open>Extraction from a deck\<close>

text \<open>
  Memory, for \<^verbatim>\<open>createGrdecl\<close>: a list of blocks, the address of a block being its
  position. A block is the storage of a vector of ints or of doubles, or a buffer
  obtained from \<^verbatim>\<open>malloc\<close>, whose cells hold no value until they are written.
  \<^verbatim>\<open>malloc\<close> appends a block, so the address it returns is the address of no
  earlier block; it is taken to succeed (the source does not test its result).
\<close>

type_synonym addr = nat

datatype 'd block = IntVec "cint list" | DoubleVec "'d list" | Malloced "'d option list"

type_synonym 'd heap = "'d block list"

definition malloc :: "'d heap \<Rightarrow> nat \<Rightarrow> addr \<times> 'd heap" where
  "malloc h n = (length h, h @ [Malloced (replicate n None)])"

text \<open>\<^verbatim>\<open>p[i] = v\<close> for a pointer \<open>p\<close> to a buffer obtained from \<^verbatim>\<open>malloc\<close>.\<close>

definition write_double :: "'d heap \<Rightarrow> addr \<Rightarrow> nat \<Rightarrow> 'd \<Rightarrow> 'd heap" where
  "write_double h p i v =
    (if p < length h then
       (case h ! p of Malloced cells \<Rightarrow> h[p := Malloced (cells[i := Some v])] | _ \<Rightarrow> h)
     else h)"

text \<open>
  Modelled from the spec: the keyword source of section 4.6 (classes \<^verbatim>\<open>Deck\<close>,
  \<^verbatim>\<open>DeckKeyword\<close>, \<^verbatim>\<open>DeckRecord\<close>, \<^verbatim>\<open>DeckItem\<close> of the parser library). A deck
  maps a keyword name to a keyword, a keyword is a list of records, a record a list of
  items, and an item owns one vector: its int values, or its double values scaled to SI
  units. The item holds the address of that vector. An accessor raises when the
  keyword, record, item or value asked for is not there, or is of the other type.
\<close>

datatype DeckItem = IntItem addr | DoubleItem addr

type_synonym DeckRecord = "DeckItem list"

type_synonym DeckKeyword = "DeckRecord list"

type_synonym Deck = "string \<Rightarrow> DeckKeyword option"

definition bind_exn :: "exn + 'a \<Rightarrow> ('a \<Rightarrow> exn + 'b) \<Rightarrow> exn + 'b" where
  "bind_exn r f = (case r of Inl e \<Rightarrow> Inl e | Inr x \<Rightarrow> f x)"

definition hasKeyword :: "Deck \<Rightarrow> string \<Rightarrow> bool" where
  "hasKeyword deck name = (deck name \<noteq> None)"

definition getKeyword :: "Deck \<Rightarrow> string \<Rightarrow> exn + DeckKeyword" where
  "getKeyword deck name = (case deck name of None \<Rightarrow> Inl DeckException | Some k \<Rightarrow> Inr k)"

definition getRecord :: "DeckKeyword \<Rightarrow> nat \<Rightarrow> exn + DeckRecord" where
  "getRecord k i = (if i < length k then Inr (k ! i) else Inl DeckException)"

definition getItem :: "DeckRecord \<Rightarrow> nat \<Rightarrow> exn + DeckItem" where
  "getItem r i = (if i < length r then Inr (r ! i) else Inl DeckException)"

text \<open>\<^verbatim>\<open>item.get< int >(i)\<close> and \<^verbatim>\<open>item.getSIDouble(i)\<close>.\<close>

fun get_int :: "'d heap \<Rightarrow> DeckItem \<Rightarrow> nat \<Rightarrow> exn + cint" where
  "get_int h (IntItem a) i =
     (if a < length h then
        (case h ! a of
           IntVec xs \<Rightarrow> if i < length xs then Inr (xs ! i) else Inl DeckException
         | _ \<Rightarrow> Inl DeckException)
      else Inl DeckException)"
| "get_int h (DoubleItem a) i = Inl DeckException"

fun getSIDouble :: "'d heap \<Rightarrow> DeckItem \<Rightarrow> nat \<Rightarrow> exn + 'd" where
  "getSIDouble h (DoubleItem a) i =
     (if a < length h then
        (case h ! a of
           DoubleVec xs \<Rightarrow> if i < length xs then Inr (xs ! i) else Inl DeckException
         | _ \<Rightarrow> Inl DeckException)
      else Inl DeckException)"
| "getSIDouble h (IntItem a) i = Inl DeckException"

text \<open>
  \<^verbatim>\<open>keyword.getRecord(0).getItem(i).get< int >(0)\<close>, the expression of lines 190 to
  192 and 195 to 197.
\<close>

definition record0_item_int :: "'d heap \<Rightarrow> DeckKeyword \<Rightarrow> nat \<Rightarrow> exn + cint" where
  "record0_item_int h k i =
    bind_exn (getRecord k 0) (\<lambda>r. bind_exn (getItem r i) (\<lambda>item. get_int h item 0))"

text \<open>
  \<^verbatim>\<open>keyword.getSIDoubleData()\<close> and \<^verbatim>\<open>keyword.getIntData()\<close>: a reference to the
  vector of the single item of the single record of a data keyword.
\<close>

fun getSIDoubleData :: "DeckKeyword \<Rightarrow> exn + addr" where
  "getSIDoubleData [[DoubleItem a]] = Inr a"
| "getSIDoubleData k = Inl DeckException"

fun getIntData :: "DeckKeyword \<Rightarrow> exn + addr" where
  "getIntData [[IntItem a]] = Inr a"
| "getIntData k = Inl DeckException"

text \<open>
  The loop of lines 220 and 221, from index \<open>i\<close> on. It returns the memory as the loop
  leaves it and the exception that ended it, if one did. The index is an
  \<^verbatim>\<open>unsigned\<close> compared with a \<^verbatim>\<open>size_t\<close>; it is a natural number here, which is
  the same for a record of fewer than \<open>2 ^ 32\<close> items.
\<close>

function copy_mapaxes :: "'d heap \<Rightarrow> DeckRecord \<Rightarrow> addr \<Rightarrow> nat \<Rightarrow> 'd heap \<times> exn option" where
  "copy_mapaxes h mapaxesRecord cWtfMapaxes i =
    (if i < length mapaxesRecord then
       (case bind_exn (getItem mapaxesRecord i) (\<lambda>item. getSIDouble h item 0) of
          Inl e \<Rightarrow> (h, Some e)
        | Inr v \<Rightarrow> copy_mapaxes (write_double h cWtfMapaxes i v) mapaxesRecord cWtfMapaxes (i + 1))
     else (h, None))"
  by pat_completeness auto
termination
  by (relation "measure (\<lambda>(h, r, p, i). length r - i)") auto

declare copy_mapaxes.simps [simp del]

text \<open>
  \<^verbatim>\<open>GridManager::createGrdecl\<close> (lines 177 to 226), in the order of the source.
  Lines 180 to 185 take references to the deck's vectors: \<^verbatim>\<open>&zcorn[0]\<close>,
  \<^verbatim>\<open>&coord[0]\<close> and \<^verbatim>\<open>&getIntData()[0]\<close> are the addresses of the deck's own
  storage, and \<^verbatim>\<open>actnum\<close> stays null when the deck has no \<^verbatim>\<open>ACTNUM\<close>.
\<close>

definition createGrdecl_arrays :: "Deck \<Rightarrow> exn + addr \<times> addr \<times> addr option" where
  "createGrdecl_arrays deck =
    bind_exn (getKeyword deck ''ZCORN'') (\<lambda>k. bind_exn (getSIDoubleData k) (\<lambda>zcorn.
    bind_exn (getKeyword deck ''COORD'') (\<lambda>k. bind_exn (getSIDoubleData k) (\<lambda>coord.
    bind_exn (if hasKeyword deck ''ACTNUM''
              then bind_exn (getKeyword deck ''ACTNUM'') (\<lambda>k.
                   bind_exn (getIntData k) (\<lambda>a. Inr (Some a)))
              else Inr None) (\<lambda>actnum.
    Inr (zcorn, coord, actnum))))))"

text \<open>Lines 187 to 200: the local \<^verbatim>\<open>std::array<int, 3> dims\<close>.\<close>

definition createGrdecl_dims :: "'d heap \<Rightarrow> Deck \<Rightarrow> exn + cint \<times> cint \<times> cint" where
  "createGrdecl_dims h deck =
    (if hasKeyword deck ''DIMENS'' then
       bind_exn (getKeyword deck ''DIMENS'') (\<lambda>dimensKeyword.
       bind_exn (record0_item_int h dimensKeyword 0) (\<lambda>d0.
       bind_exn (record0_item_int h dimensKeyword 1) (\<lambda>d1.
       bind_exn (record0_item_int h dimensKeyword 2) (\<lambda>d2.
       Inr (d0, d1, d2)))))
     else if hasKeyword deck ''SPECGRID'' then
       bind_exn (getKeyword deck ''SPECGRID'') (\<lambda>specgridKeyword.
       bind_exn (record0_item_int h specgridKeyword 0) (\<lambda>d0.
       bind_exn (record0_item_int h specgridKeyword 1) (\<lambda>d1.
       bind_exn (record0_item_int h specgridKeyword 2) (\<lambda>d2.
       Inr (d0, d1, d2)))))
     else Inl (RuntimeError ''Deck must have either DIMENS or SPECGRID.''))"

text \<open>
  Lines 211 to 224, on the \<^verbatim>\<open>grdecl\<close> that lines 204 to 209 have filled: the
  memory and the \<^verbatim>\<open>grdecl\<close> afterwards, and the exception raised, if any.
\<close>

definition createGrdecl_mapaxes ::
  "'d heap \<Rightarrow> Deck \<Rightarrow> (addr option, addr option) grdecl
     \<Rightarrow> 'd heap \<times> (addr option, addr option) grdecl \<times> exn option" where
  "createGrdecl_mapaxes h deck grdecl =
    (if hasKeyword deck ''MAPAXES'' then
       (case bind_exn (getKeyword deck ''MAPAXES'') (\<lambda>mapaxesKeyword.
               getRecord mapaxesKeyword 0) of
          Inl e \<Rightarrow> (h, grdecl, Some e)
        | Inr mapaxesRecord \<Rightarrow>
            (let (cWtfMapaxes, h) = malloc h (length mapaxesRecord)
             in case copy_mapaxes h mapaxesRecord cWtfMapaxes 0 of
                  (h, Some e) \<Rightarrow> (h, grdecl, Some e)
                | (h, None) \<Rightarrow> (h, grdecl\<lparr>mapaxes := Some cWtfMapaxes\<rparr>, None)))
     else (h, grdecl\<lparr>mapaxes := None\<rparr>, None))"

text \<open>
  The whole function. It fills the \<^verbatim>\<open>grdecl\<close> it is given by reference; the model
  takes the memory, the deck and that \<^verbatim>\<open>grdecl\<close>, and returns the memory and the
  \<^verbatim>\<open>grdecl\<close> as the function leaves them, with the exception that left it (\<open>None\<close>
  when it returned). An exception of lines 180 to 200 leaves both as they were.
\<close>

definition createGrdecl ::
  "'d heap \<Rightarrow> Deck \<Rightarrow> (addr option, addr option) grdecl
     \<Rightarrow> 'd heap \<times> (addr option, addr option) grdecl \<times> exn option" where
  "createGrdecl h deck grdecl =
    (case createGrdecl_arrays deck of
       Inl e \<Rightarrow> (h, grdecl, Some e)
     | Inr arrays \<Rightarrow>
         (case createGrdecl_dims h deck of
            Inl e \<Rightarrow> (h, grdecl, Some e)
          | Inr d \<Rightarrow>
              (let (zcorn, coord, actnum) = arrays;
                   dims = d;
                   grdecl = grdecl\<lparr>zcorn := Some zcorn, coord := Some coord,
                                   actnum := actnum, dims := dims\<rparr>
               in createGrdecl_mapaxes h deck grdecl)))"

subsection \<open>Concrete inputs\<close>

text \<open>
  Inputs on which the definitions are evaluated below. Doubles are real numbers. A grid
  is the number of its cells with the corner elevations attached to it, if any. The
  pore-volume processor here deactivates every cell whose pore volume is below the
  threshold, flattens the elevations when it deactivates a cell, and reports the number
  of cells it deactivated; the factories refuse a dimension that is not positive; the
  reader knows one file.
\<close>

definition ext0 :: "(real, nat \<times> real list option) externals" where
  "ext0 =
    \<lparr>minpv_process = (\<lambda>d pv minpv a opmfil z.
        Inr (of_nat (length (filter (\<lambda>v. v < minpv) pv)),
             map2 (\<lambda>v x. if v < minpv then 0 else x) pv a,
             if filter (\<lambda>v. v < minpv) pv = [] then z else replicate (length z) 0)),
     create_grid_cornerpoint = (\<lambda>g tol.
        case dims g of (nx, ny, nz) \<Rightarrow>
          if 0 < sint nx \<and> 0 < sint ny \<and> 0 < sint nz
          then Some (unat nx * unat ny * unat nz, None) else None),
     attach_zcorn_copy = (\<lambda>ug z. (fst ug, Some z)),
     create_grid_cart2d = (\<lambda>nx ny dx dy.
        if 0 < sint nx \<and> 0 < sint ny then Some (unat nx * unat ny, None) else None),
     create_grid_cart3d = (\<lambda>nx ny nz.
        if 0 < sint nx \<and> 0 < sint ny \<and> 0 < sint nz
        then Some (unat nx * unat ny * unat nz, None) else None),
     create_grid_hexa3d = (\<lambda>nx ny nz dx dy dz.
        if 0 < sint nx \<and> 0 < sint ny \<and> 0 < sint nz
        then Some (unat nx * unat ny * unat nz, None) else None),
     read_grid = (\<lambda>name. if name = ''grid.txt'' then Some (1, None) else None)\<rparr>"

text \<open>
  A column of two cells, each of height 1, with pinch inactive although a thickness is
  present, and minpv mode \<^verbatim>\<open>EclSTD\<close> with threshold 3.
\<close>

definition column_grid :: "real EclipseGrid" where
  "column_grid =
    \<lparr>getNX = 1, getNY = 1, getNZ = 2,
     exportMAPAXES = [],
     exportCOORD = [0, 0, 0, 0, 0, 2,  1, 0, 0, 1, 0, 2,  0, 1, 0, 0, 1, 2,  1, 1, 0, 1, 1, 2],
     exportZCORN = [0, 0, 0, 0,  1, 1, 1, 1,  1, 1, 1, 1,  2, 2, 2, 2],
     exportACTNUM = [1, 1],
     getMinpvMode = EclSTD,
     getMinpvValue = 3,
     isPinchActive = False,
     getPinchThresholdThickness = 1 / 4\<rparr>"

text \<open>The same column with no cell in any direction: the assembler refuses it.\<close>

definition empty_grid :: "real EclipseGrid" where
  "empty_grid = column_grid\<lparr>getNX := 0, getNY := 0, getNZ := 0, exportCOORD := [],
     exportZCORN := [], exportACTNUM := []\<rparr>"

text \<open>
  A memory and a deck for one cell. The deck has \<^verbatim>\<open>ZCORN\<close>, \<^verbatim>\<open>COORD\<close>,
  \<^verbatim>\<open>ACTNUM\<close>, \<^verbatim>\<open>DIMENS\<close> with (1, 1, 1), \<^verbatim>\<open>SPECGRID\<close> with (7, 8, 9) and
  \<^verbatim>\<open>MAPAXES\<close> with six values.
\<close>

definition deck_memory :: "real heap" where
  "deck_memory =
    [DoubleVec [0, 0, 0, 0, 1, 1, 1, 1],
     DoubleVec [0, 0, 0, 0, 0, 1,  1, 0, 0, 1, 0, 1,  0, 1, 0, 0, 1, 1,  1, 1, 0, 1, 1, 1],
     IntVec [1],
     IntVec [1], IntVec [1], IntVec [1],
     IntVec [7], IntVec [8], IntVec [9],
     DoubleVec [0], DoubleVec [100], DoubleVec [0], DoubleVec [0], DoubleVec [100],
     DoubleVec [0]]"

definition full_deck :: Deck where
  "full_deck =
    [''ZCORN'' \<mapsto> [[DoubleItem 0]],
     ''COORD'' \<mapsto> [[DoubleItem 1]],
     ''ACTNUM'' \<mapsto> [[IntItem 2]],
     ''DIMENS'' \<mapsto> [[IntItem 3, IntItem 4, IntItem 5]],
     ''SPECGRID'' \<mapsto> [[IntItem 6, IntItem 7, IntItem 8]],
     ''MAPAXES'' \<mapsto> [[DoubleItem 9, DoubleItem 10, DoubleItem 11, DoubleItem 12,
                      DoubleItem 13, DoubleItem 14]]]"

text \<open>The \<^verbatim>\<open>grdecl\<close> handed to \<^verbatim>\<open>createGrdecl\<close>, before it is filled.\<close>

definition blank_grdecl :: "(addr option, addr option) grdecl" where
  "blank_grdecl = \<lparr>dims = (0, 0, 0), coord = None, zcorn = None, actnum = None, mapaxes = None\<rparr>"

section \<open>Properties\<close>

subsection \<open>Runs on the concrete inputs\<close>

lemmas init_unfold = initFromEclipseGrid_def Let_def

lemmas eval_init = initFromEclipseGrid_def ext0_def column_grid_def empty_grid_def Let_def

lemmas eval_ctor = GridManager_inputGrid_def GridManager_inputGrid_poreVolumes_def
  GridManager_nx_ny_def GridManager_nx_ny_dx_dy_def GridManager_nx_ny_nz_def
  GridManager_nx_ny_nz_dx_dy_dz_def GridManager_input_filename_def

lemmas eval_deck = createGrdecl_def createGrdecl_arrays_def createGrdecl_dims_def
  createGrdecl_mapaxes_def record0_item_int_def bind_exn_def hasKeyword_def getKeyword_def
  getRecord_def getItem_def malloc_def write_double_def deck_memory_def full_deck_def
  blank_grdecl_def Let_def

lemma filtered_run:
  "initFromEclipseGrid ext0 \<lparr>ug_ptr = None\<rparr> column_grid [5, 1] =
    ([Process (1, 1, 2) [5, 1] 3 [1, 1] True (exportZCORN column_grid)
        (Inr (1, [1, 0], [0, 0, 0, 0, 0, 0, 0, 0, 0, 0, 0, 0, 0, 0, 0, 0])),
      CreateGridCornerpoint
        \<lparr>dims = (1, 1, 2), coord = exportCOORD column_grid, zcorn = [0, 0, 0, 0, 0, 0, 0, 0, 0, 0, 0, 0, 0, 0, 0, 0],
         actnum = [1, 0], mapaxes = []\<rparr> 0 (Some (2, None)),
      AttachZcornCopy (2, None) ([0, 0, 0, 0, 0, 0, 0, 0, 0, 0, 0, 0, 0, 0, 0, 0])],
     Inr \<lparr>ug_ptr = Some (2, Some ([0, 0, 0, 0, 0, 0, 0, 0, 0, 0, 0, 0, 0, 0, 0, 0]))\<rparr>)"
  by (simp add: eval_init)

lemma unfiltered_run:
  "initFromEclipseGrid ext0 \<lparr>ug_ptr = None\<rparr> column_grid [] =
    ([CreateGridCornerpoint
        \<lparr>dims = (1, 1, 2), coord = exportCOORD column_grid, zcorn = exportZCORN column_grid,
         actnum = [1, 1], mapaxes = []\<rparr> 0 (Some (2, None))],
     Inr \<lparr>ug_ptr = Some (2, None)\<rparr>)"
  by (simp add: eval_init)

lemma refused_run:
  "initFromEclipseGrid ext0 \<lparr>ug_ptr = None\<rparr> empty_grid [] =
    ([CreateGridCornerpoint
        \<lparr>dims = (0, 0, 0), coord = [], zcorn = [], actnum = [], mapaxes = []\<rparr> 0 None],
     Inl (RuntimeError ''Failed to construct grid.''))"
  by (simp add: eval_init)


lemma missing_file_run:
  "construct ext0 (Args_input_filename ''missing.txt'') =
     ([ReadGrid ''missing.txt'' None],
      Inl (RuntimeError ''Failed to read grid from file missing.txt''))"
  by (simp add: eval_ctor ext0_def Let_def)

lemma cart2d_run:
  "construct ext0 (Args_nx_ny 2 3) =
     ([CreateGridCart2d 2 3 1 1 (Some (6, None))], Inr \<lparr>ug_ptr = Some (6, None)\<rparr>)"
  by (simp add: eval_ctor ext0_def Let_def)

lemma cart3d_refused_run:
  "construct ext0 (Args_nx_ny_nz 2 0 3) =
     ([CreateGridCart3d 2 0 3 None], Inl (RuntimeError ''Failed to construct grid.''))"
  by (simp add: eval_ctor ext0_def Let_def)

lemma geological_refused_run:
  "construct ext0 (Args_inputGrid empty_grid) =
     ([InitCall (CreateGridCornerpoint
        \<lparr>dims = (0, 0, 0), coord = [], zcorn = [], actnum = [], mapaxes = []\<rparr> 0 None)],
      Inl (RuntimeError ''Failed to construct grid.''))"
  by (simp add: eval_ctor refused_run)

lemma geological_run:
  "construct ext0 (Args_inputGrid_poreVolumes column_grid [5, 1]) =
     (map InitCall (fst (initFromEclipseGrid ext0 \<lparr>ug_ptr = None\<rparr> column_grid [5, 1])),
      Inr \<lparr>ug_ptr = Some (2, Some [0, 0, 0, 0, 0, 0, 0, 0, 0, 0, 0, 0, 0, 0, 0, 0])\<rparr>)"
  by (simp add: eval_ctor filtered_run)

lemma full_deck_result:
  "createGrdecl deck_memory full_deck blank_grdecl =
     (deck_memory @ [Malloced [Some 0, Some 100, Some 0, Some 0, Some 100, Some 0]],
      \<lparr>dims = (1, 1, 1), coord = Some 1, zcorn = Some 0, actnum = Some 2, mapaxes = Some 15\<rparr>,
      None)"
  by (simp add: eval_deck copy_mapaxes.simps)

lemma specgrid_deck_result:
  "createGrdecl deck_memory (full_deck(''DIMENS'' := None, ''MAPAXES'' := None)) blank_grdecl =
     (deck_memory,
      \<lparr>dims = (7, 8, 9), coord = Some 1, zcorn = Some 0, actnum = Some 2, mapaxes = None\<rparr>,
      None)"
  by (simp add: eval_deck)

lemma no_dims_deck_result:
  "createGrdecl deck_memory (full_deck(''DIMENS'' := None, ''SPECGRID'' := None)) blank_grdecl =
     (deck_memory, blank_grdecl,
      Some (RuntimeError ''Deck must have either DIMENS or SPECGRID.''))"
  by (simp add: eval_deck)

lemma full_deck_DIMENS:
  "getKeyword full_deck ''DIMENS'' = Inr [[IntItem 3, IntItem 4, IntItem 5]]"
  by (simp add: getKeyword_def full_deck_def)

lemma full_deck_MAPAXES: "hasKeyword full_deck ''MAPAXES''"
  by (simp add: hasKeyword_def full_deck_def)


lemmas eval_reads = createGrdecl_arrays_def createGrdecl_dims_def record0_item_int_def
  bind_exn_def hasKeyword_def getKeyword_def getRecord_def getItem_def deck_memory_def
  full_deck_def

lemma specgrid_deck_keywords:
  "\<not> hasKeyword (full_deck(''DIMENS'' := None, ''MAPAXES'' := None)) ''DIMENS''"
  "\<not> hasKeyword (full_deck(''DIMENS'' := None, ''MAPAXES'' := None)) ''MAPAXES''"
  "getKeyword (full_deck(''DIMENS'' := None, ''MAPAXES'' := None)) ''SPECGRID'' =
     Inr [[IntItem 6, IntItem 7, IntItem 8]]"
  "createGrdecl_arrays (full_deck(''DIMENS'' := None, ''MAPAXES'' := None)) =
     Inr (0, 1, Some 2)"
  by (simp_all add: eval_reads)

lemma specgrid_deck_dims:
  "createGrdecl_dims deck_memory (full_deck(''DIMENS'' := None, ''MAPAXES'' := None)) =
     Inr (7, 8, 9)"
  by (simp add: eval_reads)

lemma SPECGRID_items:
  "record0_item_int deck_memory [[IntItem 6, IntItem 7, IntItem 8]] 0 = Inr 7"
  "record0_item_int deck_memory [[IntItem 6, IntItem 7, IntItem 8]] 1 = Inr 8"
  "record0_item_int deck_memory [[IntItem 6, IntItem 7, IntItem 8]] 2 = Inr 9"
  by (simp_all add: eval_reads)

lemma full_deck_reads:
  "createGrdecl_arrays full_deck = Inr (0, 1, Some 2)"
  "createGrdecl_dims deck_memory full_deck = Inr (1, 1, 1)"
  "getKeyword full_deck ''MAPAXES'' =
     Inr [[DoubleItem 9, DoubleItem 10, DoubleItem 11, DoubleItem 12, DoubleItem 13,
           DoubleItem 14]]"
  "getRecord [[DoubleItem 9, DoubleItem 10, DoubleItem 11, DoubleItem 12, DoubleItem 13,
           DoubleItem 14]] 0 =
     Inr [DoubleItem 9, DoubleItem 10, DoubleItem 11, DoubleItem 12, DoubleItem 13,
           DoubleItem 14]"
  "map (\<lambda>item. getSIDouble deck_memory item 0)
     [DoubleItem 9, DoubleItem 10, DoubleItem 11, DoubleItem 12, DoubleItem 13, DoubleItem 14] =
   map Inr [0, 100, 0, 0, 100, 0]"
  by (simp_all add: eval_reads)

subsection \<open>Construction from an EclipseGrid\<close>

text \<open>
  C1. In \<^verbatim>\<open>initFromEclipseGrid\<close>, \<^verbatim>\<open>attach_zcorn_copy\<close> is called if and only if the
  assembler returned a handle and the filtering pass was invoked and reported a positive
  number of modified cells. When it is called, it is given the handle the assembler
  returned and the corner elevations as the filtering pass left them, which are also
  the ones the assembler was given, and the manager holds the grid with that copy
  attached. When the filtering pass reported no modified cell or was not invoked, there
  is no attach call.
\<close>

theorem attach_iff_cells_modified:
  "(let (calls, r) = initFromEclipseGrid ext this inputGrid poreVolumes
    in ((\<exists>ug z. AttachZcornCopy ug z \<in> set calls) \<longleftrightarrow>
          (\<exists>g tol ug. CreateGridCornerpoint g tol (Some ug) \<in> set calls) \<and>
          (\<exists>d pv v a f z0 c a' z'.
              Process d pv v a f z0 (Inr (c, a', z')) \<in> set calls \<and> 0 < sint c)) \<and>
       (\<forall>ug z. AttachZcornCopy ug z \<in> set calls \<longrightarrow>
          (\<exists>g tol. CreateGridCornerpoint g tol (Some ug) \<in> set calls \<and> z = zcorn g) \<and>
          (\<exists>d pv v a f z0 c a'. Process d pv v a f z0 (Inr (c, a', z)) \<in> set calls) \<and>
          r = Inr (this\<lparr>ug_ptr := Some (attach_zcorn_copy ext ug z)\<rparr>)))"
  by (auto simp: init_unfold split: if_splits sum.splits option.splits prod.splits)

theorem attach_iff_cells_modified_witness:
  "AttachZcornCopy (2, None) ([0, 0, 0, 0, 0, 0, 0, 0, 0, 0, 0, 0, 0, 0, 0, 0])
     \<in> set (fst (initFromEclipseGrid ext0 \<lparr>ug_ptr = None\<rparr> column_grid [5, 1])) \<and>
   snd (initFromEclipseGrid ext0 \<lparr>ug_ptr = None\<rparr> column_grid [5, 1]) =
     Inr \<lparr>ug_ptr = Some (attach_zcorn_copy ext0 (2, None) ([0, 0, 0, 0, 0, 0, 0, 0, 0, 0, 0, 0, 0, 0, 0, 0]))\<rparr> \<and>
   (\<forall>ug z. AttachZcornCopy ug z
      \<notin> set (fst (initFromEclipseGrid ext0 \<lparr>ug_ptr = None\<rparr> column_grid [])))"
  using attach_iff_cells_modified [of ext0 "\<lparr>ug_ptr = None\<rparr>" column_grid "[5, 1]"]
    attach_iff_cells_modified [of ext0 "\<lparr>ug_ptr = None\<rparr>" column_grid "[]"]
  by (simp add: filtered_run unfiltered_run)









subsection \<open>The constructors and the accessor\<close>

text \<open>
  C6. For every constructor: when the factory, the reader or the assembler returned a
  null handle, the constructor throws a \<^verbatim>\<open>std::runtime_error\<close>, whose message names
  the file for the constructor that reads a file and is \<^verbatim>\<open>Failed to construct grid.\<close>
  for the others; and a constructor that returns leaves a manager whose handle is not
  null. So a construction yields a manager with a handle or no manager.
\<close>

theorem construction_all_or_nothing:
  assumes "construct ext args = (calls, r)"
  shows "(((\<exists>g tol. InitCall (CreateGridCornerpoint g tol None) \<in> set calls) \<or>
           (\<exists>nx ny dx dy. CreateGridCart2d nx ny dx dy None \<in> set calls) \<or>
           (\<exists>nx ny nz. CreateGridCart3d nx ny nz None \<in> set calls) \<or>
           (\<exists>nx ny nz dx dy dz. CreateGridHexa3d nx ny nz dx dy dz None \<in> set calls) \<or>
           (\<exists>name. ReadGrid name None \<in> set calls)) \<longrightarrow>
          r = Inl (RuntimeError
                (case args of
                   Args_input_filename name \<Rightarrow> ''Failed to read grid from file '' @ name
                 | _ \<Rightarrow> ''Failed to construct grid.''))) \<and>
         (\<forall>m. r = Inr m \<longrightarrow> (\<exists>ug. ug_ptr m = Some ug))"
  using assms
  by (cases args)
     (auto simp: eval_ctor init_unfold
        split: if_splits sum.splits option.splits prod.splits)

theorem construction_all_or_nothing_witness:
  "ReadGrid ''missing.txt'' None
     \<in> set (fst (construct ext0 (Args_input_filename ''missing.txt''))) \<and>
   snd (construct ext0 (Args_input_filename ''missing.txt'')) =
     Inl (RuntimeError ''Failed to read grid from file missing.txt'') \<and>
   CreateGridCart3d 2 0 3 None \<in> set (fst (construct ext0 (Args_nx_ny_nz 2 0 3))) \<and>
   snd (construct ext0 (Args_nx_ny_nz 2 0 3)) = Inl (RuntimeError ''Failed to construct grid.'') \<and>
   InitCall (CreateGridCornerpoint
        \<lparr>dims = (0, 0, 0), coord = [], zcorn = [], actnum = [], mapaxes = []\<rparr> 0 None)
     \<in> set (fst (construct ext0 (Args_inputGrid empty_grid))) \<and>
   snd (construct ext0 (Args_inputGrid empty_grid)) =
     Inl (RuntimeError ''Failed to construct grid.'') \<and>
   construct ext0 (Args_nx_ny 2 3) =
     ([CreateGridCart2d 2 3 1 1 (Some (6, None))], Inr \<lparr>ug_ptr = Some (6, None)\<rparr>) \<and>
   (\<exists>ug. ug_ptr \<lparr>ug_ptr = Some (6 :: nat, None :: real list option)\<rparr> = Some ug)"
proof -
  have pair: "construct ext0 args = (fst (construct ext0 args), snd (construct ext0 args))"
    for args :: "real ctor_args"
    by simp
  have f1: "ReadGrid ''missing.txt'' None
     \<in> set (fst (construct ext0 (Args_input_filename ''missing.txt'')))"
    by (simp only: missing_file_run) simp
  with construction_all_or_nothing [OF pair [of "Args_input_filename ''missing.txt''"]]
  have r1: "snd (construct ext0 (Args_input_filename ''missing.txt'')) =
     Inl (RuntimeError ''Failed to read grid from file missing.txt'')"
    by auto
  have f2: "CreateGridCart3d 2 0 3 None \<in> set (fst (construct ext0 (Args_nx_ny_nz 2 0 3)))"
    by (simp only: cart3d_refused_run) simp
  with construction_all_or_nothing [OF pair [of "Args_nx_ny_nz 2 0 3"]]
  have r2: "snd (construct ext0 (Args_nx_ny_nz 2 0 3)) =
     Inl (RuntimeError ''Failed to construct grid.'')"
    by auto
  have f3: "InitCall (CreateGridCornerpoint
        \<lparr>dims = (0, 0, 0), coord = [], zcorn = [], actnum = [], mapaxes = []\<rparr> 0 None)
     \<in> set (fst (construct ext0 (Args_inputGrid empty_grid)))"
    by (simp only: geological_refused_run) simp
  with construction_all_or_nothing [OF pair [of "Args_inputGrid empty_grid"]]
  have r3: "snd (construct ext0 (Args_inputGrid empty_grid)) =
     Inl (RuntimeError ''Failed to construct grid.'')"
    by auto
  from construction_all_or_nothing [OF cart2d_run]
  have r4: "\<exists>ug. ug_ptr \<lparr>ug_ptr = Some (6 :: nat, None :: real list option)\<rparr> = Some ug"
    by blast
  from f1 r1 f2 r2 f3 r3 cart2d_run r4 show ?thesis by blast
qed

text \<open>
  C9. On a manager that a constructor returned, \<^verbatim>\<open>c_grid\<close> returns the handle the
  manager holds, that handle is not null, and the manager after the call is the manager
  before it: it still holds the handle, which its destructor will release.
\<close>

theorem accessor_returns_owned_handle:
  assumes "construct ext args = (calls, Inr m)"
  shows "fst (c_grid m) = ug_ptr m \<and> (\<exists>ug. fst (c_grid m) = Some ug) \<and>
         snd (c_grid m) = m \<and> destroy_GridManager (snd (c_grid m)) = fst (c_grid m)"
  using assms
  by (cases args)
     (auto simp: eval_ctor init_unfold c_grid_def destroy_GridManager_def
        split: if_splits sum.splits option.splits prod.splits)

theorem accessor_returns_owned_handle_witness:
  "construct ext0 (Args_nx_ny 2 3) =
     ([CreateGridCart2d 2 3 1 1 (Some (6, None))], Inr \<lparr>ug_ptr = Some (6, None)\<rparr>) \<and>
   fst (c_grid \<lparr>ug_ptr = Some (6 :: nat, None :: real list option)\<rparr>) = Some (6, None) \<and>
   snd (c_grid \<lparr>ug_ptr = Some (6 :: nat, None :: real list option)\<rparr>) =
     \<lparr>ug_ptr = Some (6, None)\<rparr>"
proof -
  from accessor_returns_owned_handle [OF cart2d_run]
  have "fst (c_grid \<lparr>ug_ptr = Some (6 :: nat, None :: real list option)\<rparr>) = Some (6, None)"
    and "snd (c_grid \<lparr>ug_ptr = Some (6 :: nat, None :: real list option)\<rparr>) =
      \<lparr>ug_ptr = Some (6, None)\<rparr>"
    by simp_all
  with cart2d_run show ?thesis by blast
qed

subsection \<open>Extraction from a deck\<close>

lemma getSIDouble_write_double:
  "getSIDouble (write_double h p i v) item j = getSIDouble h item j"
  by (cases item) (auto simp: write_double_def nth_list_update split: block.splits if_splits)

lemma copy_mapaxes_returns:
  "p < length h \<Longrightarrow> h ! p = Malloced cells \<Longrightarrow> length cells = length r \<Longrightarrow>
   copy_mapaxes h r p i = (h', None) \<Longrightarrow>
   \<exists>vals. map (\<lambda>item. getSIDouble h item 0) (drop i r) = map Inr vals \<and>
          h' = h[p := Malloced (take i cells @ map Some vals)]"
proof (induction h r p i arbitrary: cells rule: copy_mapaxes.induct)
  case (1 h r p i)
  show ?case
  proof (cases "i < length r")
    case False
    have "h[p := Malloced cells] = h"
      using "1.prems" by (metis list_update_id)
    with False "1.prems" show ?thesis
      by (simp add: copy_mapaxes.simps[of h r p i])
  next
    case True
    from True "1.prems" obtain v where
      v: "getSIDouble h (r ! i) 0 = Inr v" and
      rest: "copy_mapaxes (write_double h p i v) r p (i + 1) = (h', None)"
      by (auto simp: copy_mapaxes.simps[of h r p i] bind_exn_def getItem_def split: sum.splits)
    let ?h1 = "write_double h p i v"
    have h1: "?h1 = h[p := Malloced (cells[i := Some v])]"
      using "1.prems" by (simp add: write_double_def)
    have item: "bind_exn (getItem r i) (\<lambda>item. getSIDouble h item 0) = Inr v"
      using True v by (simp add: bind_exn_def getItem_def)
    have "\<exists>vals. map (\<lambda>item. getSIDouble ?h1 item 0) (drop (i + 1) r) = map Inr vals \<and>
            h' = ?h1[p := Malloced (take (i + 1) (cells[i := Some v]) @ map Some vals)]"
      using "1.IH"[OF True item _ _ _ rest, of "cells[i := Some v]"] "1.prems" h1
      by simp
    then obtain vals where
      vals: "map (\<lambda>item. getSIDouble h item 0) (drop (i + 1) r) = map Inr vals" and
      h': "h' = ?h1[p := Malloced (take (i + 1) (cells[i := Some v]) @ map Some vals)]"
      by (auto simp: getSIDouble_write_double)
    have tk: "take (i + 1) (cells[i := Some v]) = take i cells @ [Some v]"
      using True "1.prems" by (simp add: take_Suc_conv_app_nth)
    have dr: "drop i r = r ! i # drop (i + 1) r"
      using True by (simp add: Cons_nth_drop_Suc)
    show ?thesis
      using vals h' tk dr v h1
      by (intro exI[of _ "v # vals"]) simp
  qed
qed

lemma bind_exn_Inr_iff: "bind_exn r f = Inr y \<longleftrightarrow> (\<exists>x. r = Inr x \<and> f x = Inr y)"
  by (cases r) (simp_all add: bind_exn_def)

lemma bind_exn_Inl_iff:
  "bind_exn r f = Inl e \<longleftrightarrow> r = Inl e \<or> (\<exists>x. r = Inr x \<and> f x = Inl e)"
  by (cases r) (simp_all add: bind_exn_def)

lemma getKeyword_Inl: "getKeyword deck name = Inl e \<Longrightarrow> e = DeckException"
  by (auto simp: getKeyword_def split: option.splits)

lemma getRecord_Inl: "getRecord k i = Inl e \<Longrightarrow> e = DeckException"
  by (auto simp: getRecord_def split: if_splits)

lemma getItem_Inl: "getItem r i = Inl e \<Longrightarrow> e = DeckException"
  by (auto simp: getItem_def split: if_splits)

lemma get_int_Inl: "get_int h item i = Inl e \<Longrightarrow> e = DeckException"
  by (cases item) (auto split: if_splits block.splits)

lemma getSIDouble_Inl: "getSIDouble h item i = Inl e \<Longrightarrow> e = DeckException"
  by (cases item) (auto split: if_splits block.splits)

lemma getSIDoubleData_Inl: "getSIDoubleData k = Inl e \<Longrightarrow> e = DeckException"
  by (cases k rule: getSIDoubleData.cases) auto

lemma getIntData_Inl: "getIntData k = Inl e \<Longrightarrow> e = DeckException"
  by (cases k rule: getIntData.cases) auto

lemma record0_item_int_Inl: "record0_item_int h k i = Inl e \<Longrightarrow> e = DeckException"
  by (auto simp: record0_item_int_def bind_exn_Inl_iff
      dest: getRecord_Inl getItem_Inl get_int_Inl)

lemma copy_mapaxes_raises:
  "copy_mapaxes h r p i = (h', Some e) \<Longrightarrow> e = DeckException"
proof (induction h r p i rule: copy_mapaxes.induct)
  case (1 h r p i)
  then show ?case
    by (auto simp: copy_mapaxes.simps[of h r p i] bind_exn_Inl_iff split: if_splits sum.splits
        dest: getItem_Inl getSIDouble_Inl)
qed

lemma createGrdecl_arrays_Inl: "createGrdecl_arrays deck = Inl e \<Longrightarrow> e = DeckException"
  by (auto simp: createGrdecl_arrays_def bind_exn_Inl_iff split: if_splits
      dest: getKeyword_Inl getSIDoubleData_Inl getIntData_Inl)

lemma createGrdecl_dims_RuntimeError:
  "createGrdecl_dims h deck = Inl (RuntimeError s) \<longleftrightarrow>
     s = ''Deck must have either DIMENS or SPECGRID.'' \<and>
     \<not> hasKeyword deck ''DIMENS'' \<and> \<not> hasKeyword deck ''SPECGRID''"
  by (auto simp: createGrdecl_dims_def bind_exn_Inl_iff
      dest: getKeyword_Inl record0_item_int_Inl)

lemma createGrdecl_mapaxes_raises:
  "createGrdecl_mapaxes h deck g = (h', g', Some e) \<Longrightarrow> e = DeckException"
  by (auto simp: createGrdecl_mapaxes_def bind_exn_Inl_iff malloc_def
      split: if_splits sum.splits prod.splits option.splits
      dest: getKeyword_Inl getRecord_Inl copy_mapaxes_raises)

lemma createGrdecl_Inl_arrays:
  "createGrdecl_arrays deck = Inl e \<Longrightarrow> createGrdecl h deck grdecl = (h, grdecl, Some e)"
  by (simp add: createGrdecl_def)

lemma createGrdecl_Inl_dims:
  "createGrdecl_arrays deck = Inr arrays \<Longrightarrow> createGrdecl_dims h deck = Inl e \<Longrightarrow>
   createGrdecl h deck grdecl = (h, grdecl, Some e)"
  by (simp add: createGrdecl_def)

lemma createGrdecl_Inr:
  "createGrdecl_arrays deck = Inr (zc, co, ac) \<Longrightarrow> createGrdecl_dims h deck = Inr d \<Longrightarrow>
   createGrdecl h deck grdecl =
     createGrdecl_mapaxes h deck
       (grdecl\<lparr>zcorn := Some zc, coord := Some co, actnum := ac, dims := d\<rparr>)"
  by (simp add: createGrdecl_def)

lemma getSIDouble_append_Malloced:
  "getSIDouble (h @ [Malloced cells]) item j = getSIDouble h item j"
  by (cases item) (auto simp: nth_append split: block.splits)

lemma getSIDouble_Inr_allocated:
  "getSIDouble h item j = Inr v \<Longrightarrow> \<exists>a. item = DoubleItem a \<and> a < length h"
  by (cases item) (auto split: if_splits)

lemma createGrdecl_mapaxes_returns:
  assumes "createGrdecl_mapaxes h deck g = (h', g', None)"
  shows "(\<not> hasKeyword deck ''MAPAXES'' \<longrightarrow> g' = g\<lparr>mapaxes := None\<rparr> \<and> h' = h) \<and>
         (hasKeyword deck ''MAPAXES'' \<longrightarrow>
            (\<exists>k r vals. getKeyword deck ''MAPAXES'' = Inr k \<and> getRecord k 0 = Inr r \<and>
               map (\<lambda>item. getSIDouble h item 0) r = map Inr vals \<and>
               g' = g\<lparr>mapaxes := Some (length h)\<rparr> \<and>
               h' = h @ [Malloced (map Some vals)]))"
proof (cases "hasKeyword deck ''MAPAXES''")
  case False
  with assms show ?thesis by (simp add: createGrdecl_mapaxes_def)
next
  case True
  from True assms obtain k r where
    k: "getKeyword deck ''MAPAXES'' = Inr k" and r: "getRecord k 0 = Inr r"
    by (auto simp: createGrdecl_mapaxes_def bind_exn_Inr_iff split: sum.splits)
  let ?h1 = "h @ [Malloced (replicate (length r) None)]"
  from True assms k r have
    loop: "copy_mapaxes ?h1 r (length h) 0 = (h', None)" and g': "g' = g\<lparr>mapaxes := Some (length h)\<rparr>"
    by (auto simp: createGrdecl_mapaxes_def bind_exn_def malloc_def
        split: prod.splits option.splits)
  from copy_mapaxes_returns[OF _ _ _ loop, of "replicate (length r) None"]
  obtain vals where
    "map (\<lambda>item. getSIDouble ?h1 item 0) r = map Inr vals"
    "h' = ?h1[length h := Malloced (map Some vals)]"
    by auto
  then have "map (\<lambda>item. getSIDouble h item 0) r = map Inr vals"
    and "h' = h @ [Malloced (map Some vals)]"
    by (simp_all add: getSIDouble_append_Malloced)
  with True k r g' show ?thesis by blast
qed

lemma createGrdecl_returns:
  assumes "createGrdecl h deck grdecl = (h', grdecl', None)"
  obtains zc co ac d where
    "createGrdecl_arrays deck = Inr (zc, co, ac)" "createGrdecl_dims h deck = Inr d"
    "createGrdecl_mapaxes h deck
       (grdecl\<lparr>zcorn := Some zc, coord := Some co, actnum := ac, dims := d\<rparr>) =
     (h', grdecl', None)"
proof (cases "createGrdecl_arrays deck")
  case (Inl e)
  from createGrdecl_Inl_arrays[OF Inl, of h grdecl] assms show ?thesis by simp
next
  case arrays: (Inr arrays)
  obtain zc co ac where arr: "arrays = (zc, co, ac)" by (cases arrays) auto
  show ?thesis
  proof (cases "createGrdecl_dims h deck")
    case (Inl e)
    from createGrdecl_Inl_dims[OF arrays Inl, of grdecl] assms show ?thesis by simp
  next
    case (Inr d)
    from createGrdecl_Inr[OF arrays[unfolded arr] Inr, of grdecl] assms arrays arr Inr that
    show ?thesis by simp
  qed
qed

lemma createGrdecl_ignores_SPECGRID:
  assumes "hasKeyword deck ''DIMENS''"
  shows "createGrdecl h (deck(''SPECGRID'' := s)) grdecl = createGrdecl h deck grdecl"
proof -
  have "createGrdecl_arrays (deck(''SPECGRID'' := s)) = createGrdecl_arrays deck"
    by (simp add: createGrdecl_arrays_def hasKeyword_def getKeyword_def)
  moreover have "createGrdecl_dims h (deck(''SPECGRID'' := s)) = createGrdecl_dims h deck"
    using assms by (simp add: createGrdecl_dims_def hasKeyword_def getKeyword_def)
  moreover have "createGrdecl_mapaxes h (deck(''SPECGRID'' := s)) g = createGrdecl_mapaxes h deck g"
    for g
    by (simp add: createGrdecl_mapaxes_def hasKeyword_def getKeyword_def)
  ultimately show ?thesis
    by (simp add: createGrdecl_def split: sum.splits)
qed

lemma copy_mapaxes_succeeds:
  "p < length h \<Longrightarrow> h ! p = Malloced cells \<Longrightarrow> length cells = length r \<Longrightarrow>
   map (\<lambda>item. getSIDouble h item 0) (drop i r) = map Inr vals \<Longrightarrow>
   copy_mapaxes h r p i = (h[p := Malloced (take i cells @ map Some vals)], None)"
proof (induction h r p i arbitrary: cells vals rule: copy_mapaxes.induct)
  case (1 h r p i)
  show ?case
  proof (cases "i < length r")
    case False
    with "1.prems" have "vals = []" by simp
    moreover have "h[p := Malloced cells] = h"
      using "1.prems" by (metis list_update_id)
    ultimately show ?thesis
      using False "1.prems" by (simp add: copy_mapaxes.simps[of h r p i])
  next
    case True
    have dr: "drop i r = r ! i # drop (i + 1) r"
      using True by (simp add: Cons_nth_drop_Suc)
    with "1.prems" obtain v vals' where
      vals: "vals = v # vals'" and v: "getSIDouble h (r ! i) 0 = Inr v" and
      rest: "map (\<lambda>item. getSIDouble h item 0) (drop (i + 1) r) = map Inr vals'"
      by (cases vals) auto
    let ?h1 = "write_double h p i v"
    have h1: "?h1 = h[p := Malloced (cells[i := Some v])]"
      using "1.prems" by (simp add: write_double_def)
    have item: "bind_exn (getItem r i) (\<lambda>item. getSIDouble h item 0) = Inr v"
      using True v by (simp add: bind_exn_def getItem_def)
    have rest1: "map (\<lambda>item. getSIDouble ?h1 item 0) (drop (i + 1) r) = map Inr vals'"
      using rest by (simp add: getSIDouble_write_double)
    have "copy_mapaxes ?h1 r p (i + 1) =
        (?h1[p := Malloced (take (i + 1) (cells[i := Some v]) @ map Some vals')], None)"
      using "1.IH"[OF True item _ _ _ rest1, of "cells[i := Some v]"] "1.prems" h1
      by simp
    moreover have "take (i + 1) (cells[i := Some v]) = take i cells @ [Some v]"
      using True "1.prems" by (simp add: take_Suc_conv_app_nth)
    ultimately show ?thesis
      using True item vals h1
      by (simp add: copy_mapaxes.simps[of h r p i])
  qed
qed

lemma createGrdecl_mapaxes_absent:
  "\<not> hasKeyword deck ''MAPAXES'' \<Longrightarrow>
   createGrdecl_mapaxes h deck g = (h, g\<lparr>mapaxes := None\<rparr>, None)"
  by (simp add: createGrdecl_mapaxes_def)

lemma createGrdecl_mapaxes_present:
  assumes "getKeyword deck ''MAPAXES'' = Inr k" and "getRecord k 0 = Inr r"
    and "map (\<lambda>item. getSIDouble h item 0) r = map Inr vals"
  shows "createGrdecl_mapaxes h deck g =
     (h @ [Malloced (map Some vals)], g\<lparr>mapaxes := Some (length h)\<rparr>, None)"
proof -
  from assms(1) have has: "hasKeyword deck ''MAPAXES''"
    by (auto simp: hasKeyword_def getKeyword_def split: option.splits)
  let ?h1 = "h @ [Malloced (replicate (length r) None)]"
  from assms(3) have "map (\<lambda>item. getSIDouble ?h1 item 0) (drop 0 r) = map Inr vals"
    by (simp add: getSIDouble_append_Malloced)
  from copy_mapaxes_succeeds[OF _ _ _ this, of "length h" "replicate (length r) None"]
  have "copy_mapaxes ?h1 r (length h) 0 = (h @ [Malloced (map Some vals)], None)"
    by simp
  with has assms(1,2) show ?thesis
    by (simp add: createGrdecl_mapaxes_def bind_exn_def malloc_def)
qed

lemma createGrdecl_mapaxes_dims:
  "createGrdecl_mapaxes h deck g = (h', g', x) \<Longrightarrow> dims g' = dims g"
  by (auto simp: createGrdecl_mapaxes_def malloc_def
      split: if_splits sum.splits prod.splits option.splits)

lemma createGrdecl_dims_from:
  assumes "getKeyword deck ''DIMENS'' = Inr k \<or>
           \<not> hasKeyword deck ''DIMENS'' \<and> getKeyword deck ''SPECGRID'' = Inr k"
    and "record0_item_int h k 0 = Inr d0" and "record0_item_int h k 1 = Inr d1"
    and "record0_item_int h k 2 = Inr d2"
  shows "createGrdecl_dims h deck = Inr (d0, d1, d2)"
proof -
  have has: "getKeyword deck name = Inr k' \<Longrightarrow> hasKeyword deck name" for name k'
    by (auto simp: hasKeyword_def getKeyword_def split: option.splits)
  from assms show ?thesis
    by (auto simp: createGrdecl_dims_def bind_exn_def dest: has)
qed

lemma createGrdecl_returned_dims:
  assumes "createGrdecl h deck grdecl = (h', grdecl', None)"
  shows "(\<forall>k. getKeyword deck ''DIMENS'' = Inr k \<longrightarrow>
            (\<exists>d0 d1 d2. dims grdecl' = (d0, d1, d2) \<and>
               record0_item_int h k 0 = Inr d0 \<and> record0_item_int h k 1 = Inr d1 \<and>
               record0_item_int h k 2 = Inr d2) \<and>
            (\<forall>s. createGrdecl h (deck(''SPECGRID'' := s)) grdecl = (h', grdecl', None))) \<and>
         (\<forall>k. \<not> hasKeyword deck ''DIMENS'' \<and> getKeyword deck ''SPECGRID'' = Inr k \<longrightarrow>
            (\<exists>d0 d1 d2. dims grdecl' = (d0, d1, d2) \<and>
               record0_item_int h k 0 = Inr d0 \<and> record0_item_int h k 1 = Inr d1 \<and>
               record0_item_int h k 2 = Inr d2))"
proof -
  from assms obtain zc co ac d where
    d: "createGrdecl_dims h deck = Inr d" and
    m: "createGrdecl_mapaxes h deck
       (grdecl\<lparr>zcorn := Some zc, coord := Some co, actnum := ac, dims := d\<rparr>) =
     (h', grdecl', None)"
    by (rule createGrdecl_returns)
  from createGrdecl_mapaxes_returns[OF m] have dims: "dims grdecl' = d"
    by (cases "hasKeyword deck ''MAPAXES''") auto
  have has: "hasKeyword deck name \<longleftrightarrow> (\<exists>k. getKeyword deck name = Inr k)" for name
    by (auto simp: hasKeyword_def getKeyword_def split: option.splits)
  show ?thesis
  proof (intro conjI allI impI)
    fix k assume k: "getKeyword deck ''DIMENS'' = Inr k"
    then have h: "hasKeyword deck ''DIMENS''" by (auto simp: has)
    from d k h dims
    show "\<exists>d0 d1 d2. dims grdecl' = (d0, d1, d2) \<and>
               record0_item_int h k 0 = Inr d0 \<and> record0_item_int h k 1 = Inr d1 \<and>
               record0_item_int h k 2 = Inr d2"
      by (auto simp: createGrdecl_dims_def bind_exn_Inr_iff)
    fix s
    from createGrdecl_ignores_SPECGRID[OF h, of h s grdecl] assms
    show "createGrdecl h (deck(''SPECGRID'' := s)) grdecl = (h', grdecl', None)" by simp
  next
    fix k assume "\<not> hasKeyword deck ''DIMENS'' \<and> getKeyword deck ''SPECGRID'' = Inr k"
    then have n: "\<not> hasKeyword deck ''DIMENS''" and k: "getKeyword deck ''SPECGRID'' = Inr k"
      by simp_all
    from k have "hasKeyword deck ''SPECGRID''" by (auto simp: has)
    with d k n dims
    show "\<exists>d0 d1 d2. dims grdecl' = (d0, d1, d2) \<and>
               record0_item_int h k 0 = Inr d0 \<and> record0_item_int h k 1 = Inr d1 \<and>
               record0_item_int h k 2 = Inr d2"
      by (auto simp: createGrdecl_dims_def bind_exn_Inr_iff)
  qed
qed

lemma createGrdecl_returned_mapaxes:
  assumes "createGrdecl h deck grdecl = (h', grdecl', None)"
  shows "(\<not> hasKeyword deck ''MAPAXES'' \<longrightarrow> mapaxes grdecl' = None \<and> h' = h) \<and>
         (hasKeyword deck ''MAPAXES'' \<longrightarrow>
            (\<exists>k r vals. getKeyword deck ''MAPAXES'' = Inr k \<and> getRecord k 0 = Inr r \<and>
               map (\<lambda>item. getSIDouble h item 0) r = map Inr vals \<and>
               mapaxes grdecl' = Some (length h) \<and>
               h' = h @ [Malloced (map Some vals)] \<and>
               (\<forall>a. DoubleItem a \<in> set r \<longrightarrow> mapaxes grdecl' \<noteq> Some a) \<and>
               (\<forall>a<length h. mapaxes grdecl' \<noteq> Some a)))"
proof -
  from assms obtain zc co ac d where
    m: "createGrdecl_mapaxes h deck
       (grdecl\<lparr>zcorn := Some zc, coord := Some co, actnum := ac, dims := d\<rparr>) =
     (h', grdecl', None)"
    by (rule createGrdecl_returns)
  note ret = createGrdecl_mapaxes_returns[OF m]
  show ?thesis
  proof (intro conjI impI)
    assume "\<not> hasKeyword deck ''MAPAXES''"
    with ret show "mapaxes grdecl' = None" and "h' = h" by simp_all
  next
    assume "hasKeyword deck ''MAPAXES''"
    with ret obtain k r vals where
      k: "getKeyword deck ''MAPAXES'' = Inr k" and r: "getRecord k 0 = Inr r" and
      vals: "map (\<lambda>item. getSIDouble h item 0) r = map Inr vals" and
      g': "mapaxes grdecl' = Some (length h)" and h': "h' = h @ [Malloced (map Some vals)]"
      by auto
    have "a \<noteq> length h" if "DoubleItem a \<in> set r" for a
    proof -
      from that vals have "getSIDouble h (DoubleItem a) 0 \<in> Inr ` set vals"
        by (metis (no_types, lifting) image_eqI image_set)
      then obtain v where "getSIDouble h (DoubleItem a) 0 = Inr v" by auto
      from getSIDouble_Inr_allocated[OF this] show ?thesis by simp
    qed
    with k r vals g' h'
    show "\<exists>k r vals. getKeyword deck ''MAPAXES'' = Inr k \<and> getRecord k 0 = Inr r \<and>
               map (\<lambda>item. getSIDouble h item 0) r = map Inr vals \<and>
               mapaxes grdecl' = Some (length h) \<and>
               h' = h @ [Malloced (map Some vals)] \<and>
               (\<forall>a. DoubleItem a \<in> set r \<longrightarrow> mapaxes grdecl' \<noteq> Some a) \<and>
               (\<forall>a<length h. mapaxes grdecl' \<noteq> Some a)"
      by auto
  qed
qed

lemma createGrdecl_writes_dims:
  assumes arrays: "createGrdecl_arrays deck = Inr arrays"
    and k: "getKeyword deck ''DIMENS'' = Inr k \<or>
           \<not> hasKeyword deck ''DIMENS'' \<and> getKeyword deck ''SPECGRID'' = Inr k"
    and items: "record0_item_int h k 0 = Inr d0" "record0_item_int h k 1 = Inr d1"
      "record0_item_int h k 2 = Inr d2"
  shows "dims (fst (snd (createGrdecl h deck grdecl))) = (d0, d1, d2) \<and>
         (\<not> hasKeyword deck ''MAPAXES'' \<longrightarrow> snd (snd (createGrdecl h deck grdecl)) = None)"
proof -
  obtain zc co ac where arr: "arrays = (zc, co, ac)" by (cases arrays) auto
  let ?g = "grdecl\<lparr>zcorn := Some zc, coord := Some co, actnum := ac, dims := (d0, d1, d2)\<rparr>"
  from createGrdecl_dims_from[OF k items]
  have d: "createGrdecl_dims h deck = Inr (d0, d1, d2)" .
  from createGrdecl_Inr[OF arrays[unfolded arr] d]
  have c: "createGrdecl h deck grdecl = createGrdecl_mapaxes h deck ?g" .
  obtain h' g' x where m: "createGrdecl_mapaxes h deck ?g = (h', g', x)"
    by (cases "createGrdecl_mapaxes h deck ?g") auto
  from createGrdecl_mapaxes_dims[OF m] c m
  have "dims (fst (snd (createGrdecl h deck grdecl))) = (d0, d1, d2)" by simp
  moreover have "snd (snd (createGrdecl h deck grdecl)) = None"
    if "\<not> hasKeyword deck ''MAPAXES''"
    using createGrdecl_mapaxes_absent[OF that, of h ?g] c by simp
  ultimately show ?thesis by blast
qed

lemma createGrdecl_runs_mapaxes:
  assumes arrays: "createGrdecl_arrays deck = Inr (zc, co, ac)"
    and d: "createGrdecl_dims h deck = Inr d"
  shows "(\<not> hasKeyword deck ''MAPAXES'' \<longrightarrow>
           createGrdecl h deck grdecl =
             (h, grdecl\<lparr>zcorn := Some zc, coord := Some co, actnum := ac, dims := d,
                        mapaxes := None\<rparr>, None)) \<and>
         (\<forall>k r vals. getKeyword deck ''MAPAXES'' = Inr k \<and> getRecord k 0 = Inr r \<and>
             map (\<lambda>item. getSIDouble h item 0) r = map Inr vals \<longrightarrow>
           createGrdecl h deck grdecl =
             (h @ [Malloced (map Some vals)],
              grdecl\<lparr>zcorn := Some zc, coord := Some co, actnum := ac, dims := d,
                     mapaxes := Some (length h)\<rparr>, None))"
  using createGrdecl_Inr[OF arrays d, of grdecl]
  by (auto simp: createGrdecl_mapaxes_absent createGrdecl_mapaxes_present)

text \<open>
  C4. When \<^verbatim>\<open>createGrdecl\<close> returns and the deck has \<^verbatim>\<open>DIMENS\<close>, the three
  dimensions are the first values of items 0, 1 and 2 of the first record of
  \<^verbatim>\<open>DIMENS\<close>, and \<^verbatim>\<open>SPECGRID\<close> is not consulted: the result is the same whatever
  the deck has under \<^verbatim>\<open>SPECGRID\<close>, also nothing. When the deck has no \<^verbatim>\<open>DIMENS\<close>
  but has \<^verbatim>\<open>SPECGRID\<close>, the dimensions are read in the same way from \<^verbatim>\<open>SPECGRID\<close>.
  And the dimensions are written: when lines 180 to 185 raise nothing and the three
  values can be read from \<^verbatim>\<open>DIMENS\<close>, or from \<^verbatim>\<open>SPECGRID\<close> in the absence of
  \<^verbatim>\<open>DIMENS\<close>, the \<^verbatim>\<open>grdecl\<close> that \<^verbatim>\<open>createGrdecl\<close> leaves has these three
  values as its dimensions, and \<^verbatim>\<open>createGrdecl\<close> returns if the deck has no
  \<^verbatim>\<open>MAPAXES\<close>.
\<close>

theorem dims_precedence:
  "(createGrdecl h deck grdecl = (h', grdecl', None) \<longrightarrow>
      (\<forall>k. getKeyword deck ''DIMENS'' = Inr k \<longrightarrow>
         (\<exists>d0 d1 d2. dims grdecl' = (d0, d1, d2) \<and>
            record0_item_int h k 0 = Inr d0 \<and> record0_item_int h k 1 = Inr d1 \<and>
            record0_item_int h k 2 = Inr d2) \<and>
         (\<forall>s. createGrdecl h (deck(''SPECGRID'' := s)) grdecl = (h', grdecl', None))) \<and>
      (\<forall>k. \<not> hasKeyword deck ''DIMENS'' \<and> getKeyword deck ''SPECGRID'' = Inr k \<longrightarrow>
         (\<exists>d0 d1 d2. dims grdecl' = (d0, d1, d2) \<and>
            record0_item_int h k 0 = Inr d0 \<and> record0_item_int h k 1 = Inr d1 \<and>
            record0_item_int h k 2 = Inr d2))) \<and>
   (\<forall>arrays k d0 d1 d2.
      createGrdecl_arrays deck = Inr arrays \<and>
      (getKeyword deck ''DIMENS'' = Inr k \<or>
       \<not> hasKeyword deck ''DIMENS'' \<and> getKeyword deck ''SPECGRID'' = Inr k) \<and>
      record0_item_int h k 0 = Inr d0 \<and> record0_item_int h k 1 = Inr d1 \<and>
      record0_item_int h k 2 = Inr d2 \<longrightarrow>
        dims (fst (snd (createGrdecl h deck grdecl))) = (d0, d1, d2) \<and>
        (\<not> hasKeyword deck ''MAPAXES'' \<longrightarrow> snd (snd (createGrdecl h deck grdecl)) = None))"
  using createGrdecl_returned_dims[of h deck grdecl h' grdecl']
    createGrdecl_writes_dims[of deck _ _ h _ _ _ grdecl]
  by blast

theorem dims_precedence_witness:
  "createGrdecl deck_memory full_deck blank_grdecl =
     (deck_memory @ [Malloced [Some 0, Some 100, Some 0, Some 0, Some 100, Some 0]],
      \<lparr>dims = (1, 1, 1), coord = Some 1, zcorn = Some 0, actnum = Some 2, mapaxes = Some 15\<rparr>,
      None) \<and>
   getKeyword full_deck ''DIMENS'' = Inr [[IntItem 3, IntItem 4, IntItem 5]] \<and>
   record0_item_int deck_memory [[IntItem 3, IntItem 4, IntItem 5]] 0 = Inr 1 \<and>
   record0_item_int deck_memory [[IntItem 3, IntItem 4, IntItem 5]] 1 = Inr 1 \<and>
   record0_item_int deck_memory [[IntItem 3, IntItem 4, IntItem 5]] 2 = Inr 1 \<and>
   createGrdecl deck_memory (full_deck(''SPECGRID'' := None)) blank_grdecl =
     createGrdecl deck_memory full_deck blank_grdecl \<and>
   \<not> hasKeyword (full_deck(''DIMENS'' := None, ''MAPAXES'' := None)) ''DIMENS'' \<and>
   getKeyword (full_deck(''DIMENS'' := None, ''MAPAXES'' := None)) ''SPECGRID'' =
     Inr [[IntItem 6, IntItem 7, IntItem 8]] \<and>
   record0_item_int deck_memory [[IntItem 6, IntItem 7, IntItem 8]] 0 = Inr 7 \<and>
   record0_item_int deck_memory [[IntItem 6, IntItem 7, IntItem 8]] 1 = Inr 8 \<and>
   record0_item_int deck_memory [[IntItem 6, IntItem 7, IntItem 8]] 2 = Inr 9 \<and>
   dims (fst (snd (createGrdecl deck_memory
      (full_deck(''DIMENS'' := None, ''MAPAXES'' := None)) blank_grdecl))) = (7, 8, 9) \<and>
   snd (snd (createGrdecl deck_memory
      (full_deck(''DIMENS'' := None, ''MAPAXES'' := None)) blank_grdecl)) = None"
proof -
  let ?D = "full_deck(''DIMENS'' := None, ''MAPAXES'' := None)"
  note on_full = dims_precedence [of deck_memory full_deck blank_grdecl
      "deck_memory @ [Malloced [Some 0, Some 100, Some 0, Some 0, Some 100, Some 0]]"
      "\<lparr>dims = (1, 1, 1), coord = Some 1, zcorn = Some 0, actnum = Some 2, mapaxes = Some 15\<rparr>"]
  from on_full full_deck_result full_deck_DIMENS
  have "\<exists>d0 d1 d2.
      dims (\<lparr>dims = (1, 1, 1), coord = Some 1, zcorn = Some 0, actnum = Some 2,
             mapaxes = Some 15\<rparr> :: (addr option, addr option) grdecl) = (d0, d1, d2) \<and>
      record0_item_int deck_memory [[IntItem 3, IntItem 4, IntItem 5]] 0 = Inr d0 \<and>
      record0_item_int deck_memory [[IntItem 3, IntItem 4, IntItem 5]] 1 = Inr d1 \<and>
      record0_item_int deck_memory [[IntItem 3, IntItem 4, IntItem 5]] 2 = Inr d2"
    by blast
  then have from_DIMENS:
    "record0_item_int deck_memory [[IntItem 3, IntItem 4, IntItem 5]] 0 = Inr 1 \<and>
     record0_item_int deck_memory [[IntItem 3, IntItem 4, IntItem 5]] 1 = Inr 1 \<and>
     record0_item_int deck_memory [[IntItem 3, IntItem 4, IntItem 5]] 2 = Inr 1"
    by auto
  from on_full full_deck_result full_deck_DIMENS
  have "createGrdecl deck_memory (full_deck(''SPECGRID'' := None)) blank_grdecl =
     (deck_memory @ [Malloced [Some 0, Some 100, Some 0, Some 0, Some 100, Some 0]],
      \<lparr>dims = (1, 1, 1), coord = Some 1, zcorn = Some 0, actnum = Some 2, mapaxes = Some 15\<rparr>,
      None)"
    by blast
  then have ignored: "createGrdecl deck_memory (full_deck(''SPECGRID'' := None)) blank_grdecl =
     createGrdecl deck_memory full_deck blank_grdecl"
    by (simp only: full_deck_result)
  note on_specgrid = dims_precedence [of deck_memory ?D blank_grdecl deck_memory
      "\<lparr>dims = (7, 8, 9), coord = Some 1, zcorn = Some 0, actnum = Some 2, mapaxes = None\<rparr>"]
  from on_specgrid specgrid_deck_result specgrid_deck_keywords
  have "\<exists>d0 d1 d2.
      dims (\<lparr>dims = (7, 8, 9), coord = Some 1, zcorn = Some 0, actnum = Some 2,
             mapaxes = None\<rparr> :: (addr option, addr option) grdecl) = (d0, d1, d2) \<and>
      record0_item_int deck_memory [[IntItem 6, IntItem 7, IntItem 8]] 0 = Inr d0 \<and>
      record0_item_int deck_memory [[IntItem 6, IntItem 7, IntItem 8]] 1 = Inr d1 \<and>
      record0_item_int deck_memory [[IntItem 6, IntItem 7, IntItem 8]] 2 = Inr d2"
    by blast
  then have from_SPECGRID:
    "record0_item_int deck_memory [[IntItem 6, IntItem 7, IntItem 8]] 0 = Inr 7 \<and>
     record0_item_int deck_memory [[IntItem 6, IntItem 7, IntItem 8]] 1 = Inr 8 \<and>
     record0_item_int deck_memory [[IntItem 6, IntItem 7, IntItem 8]] 2 = Inr 9"
    by auto
  from on_specgrid specgrid_deck_keywords SPECGRID_items
  have written: "dims (fst (snd (createGrdecl deck_memory ?D blank_grdecl))) = (7, 8, 9) \<and>
     snd (snd (createGrdecl deck_memory ?D blank_grdecl)) = None"
    by blast
  from full_deck_result full_deck_DIMENS from_DIMENS ignored specgrid_deck_keywords
    from_SPECGRID written
  show ?thesis by blast
qed

text \<open>
  C5. \<^verbatim>\<open>createGrdecl\<close> throws the \<^verbatim>\<open>std::runtime_error\<close> of line 199 only when
  the deck has neither \<^verbatim>\<open>DIMENS\<close> nor \<^verbatim>\<open>SPECGRID\<close>, and then it has written
  nothing: the \<^verbatim>\<open>grdecl\<close> and the memory are as they were. Conversely, when the deck
  has neither keyword and the reads of \<^verbatim>\<open>ZCORN\<close>, \<^verbatim>\<open>COORD\<close> and \<^verbatim>\<open>ACTNUM\<close>
  that come first (lines 180 to 185, which section 4.6 of the specification makes a
  precondition of the extraction) raise nothing, \<^verbatim>\<open>createGrdecl\<close> throws that error.
\<close>

theorem schema_error_iff:
  "(snd (snd (createGrdecl h deck grdecl)) =
      Some (RuntimeError ''Deck must have either DIMENS or SPECGRID.'') \<longrightarrow>
      \<not> hasKeyword deck ''DIMENS'' \<and> \<not> hasKeyword deck ''SPECGRID'' \<and>
      createGrdecl h deck grdecl =
        (h, grdecl, Some (RuntimeError ''Deck must have either DIMENS or SPECGRID.''))) \<and>
   ((\<exists>arrays. createGrdecl_arrays deck = Inr arrays) \<and>
    \<not> hasKeyword deck ''DIMENS'' \<and> \<not> hasKeyword deck ''SPECGRID'' \<longrightarrow>
      createGrdecl h deck grdecl =
        (h, grdecl, Some (RuntimeError ''Deck must have either DIMENS or SPECGRID.'')))"
proof (intro conjI impI)
  let ?msg = "''Deck must have either DIMENS or SPECGRID.''"
  assume a: "snd (snd (createGrdecl h deck grdecl)) = Some (RuntimeError ?msg)"
  have "createGrdecl_dims h deck = Inl (RuntimeError ?msg) \<and>
        createGrdecl h deck grdecl = (h, grdecl, Some (RuntimeError ?msg))"
  proof (cases "createGrdecl_arrays deck")
    case (Inl e)
    from createGrdecl_Inl_arrays[OF Inl, of h grdecl] createGrdecl_arrays_Inl[OF Inl] a
    show ?thesis by simp
  next
    case arrays: (Inr arrays)
    obtain zc co ac where arr: "arrays = (zc, co, ac)" by (cases arrays) auto
    show ?thesis
    proof (cases "createGrdecl_dims h deck")
      case (Inl e)
      from createGrdecl_Inl_dims[OF arrays Inl, of grdecl] a Inl
      show ?thesis by simp
    next
      case (Inr d)
      let ?g = "grdecl\<lparr>zcorn := Some zc, coord := Some co, actnum := ac, dims := d\<rparr>"
      obtain h' g' x where m: "createGrdecl_mapaxes h deck ?g = (h', g', x)"
        by (cases "createGrdecl_mapaxes h deck ?g") auto
      with createGrdecl_Inr[OF arrays[unfolded arr] Inr, of grdecl] a
      have "x = Some (RuntimeError ?msg)" by simp
      with createGrdecl_mapaxes_raises[of h deck ?g h' g' "RuntimeError ?msg"] m
      show ?thesis by simp
    qed
  qed
  then show "\<not> hasKeyword deck ''DIMENS''" and "\<not> hasKeyword deck ''SPECGRID''"
    and "createGrdecl h deck grdecl = (h, grdecl, Some (RuntimeError ?msg))"
    by (simp_all add: createGrdecl_dims_RuntimeError)
next
  assume b: "(\<exists>arrays. createGrdecl_arrays deck = Inr arrays) \<and>
    \<not> hasKeyword deck ''DIMENS'' \<and> \<not> hasKeyword deck ''SPECGRID''"
  then obtain arrays where arrays: "createGrdecl_arrays deck = Inr arrays" by blast
  from b have "createGrdecl_dims h deck =
      Inl (RuntimeError ''Deck must have either DIMENS or SPECGRID.'')"
    by (simp add: createGrdecl_dims_RuntimeError)
  from createGrdecl_Inl_dims[OF arrays this]
  show "createGrdecl h deck grdecl =
        (h, grdecl, Some (RuntimeError ''Deck must have either DIMENS or SPECGRID.''))" .
qed

theorem schema_error_iff_witness:
  "createGrdecl_arrays (full_deck(''DIMENS'' := None, ''SPECGRID'' := None)) =
     Inr (0, 1, Some 2) \<and>
   \<not> hasKeyword (full_deck(''DIMENS'' := None, ''SPECGRID'' := None)) ''DIMENS'' \<and>
   \<not> hasKeyword (full_deck(''DIMENS'' := None, ''SPECGRID'' := None)) ''SPECGRID'' \<and>
   createGrdecl deck_memory (full_deck(''DIMENS'' := None, ''SPECGRID'' := None)) blank_grdecl =
     (deck_memory, blank_grdecl,
      Some (RuntimeError ''Deck must have either DIMENS or SPECGRID.''))"
proof -
  have a: "createGrdecl_arrays (full_deck(''DIMENS'' := None, ''SPECGRID'' := None)) =
     Inr (0, 1, Some 2)"
    by (simp add: createGrdecl_arrays_def bind_exn_def hasKeyword_def getKeyword_def
        full_deck_def)
  have n: "\<not> hasKeyword (full_deck(''DIMENS'' := None, ''SPECGRID'' := None)) ''DIMENS''"
    "\<not> hasKeyword (full_deck(''DIMENS'' := None, ''SPECGRID'' := None)) ''SPECGRID''"
    by (simp_all add: hasKeyword_def)
  from schema_error_iff [of deck_memory "full_deck(''DIMENS'' := None, ''SPECGRID'' := None)"
      blank_grdecl] a n
  have "createGrdecl deck_memory (full_deck(''DIMENS'' := None, ''SPECGRID'' := None))
      blank_grdecl =
     (deck_memory, blank_grdecl,
      Some (RuntimeError ''Deck must have either DIMENS or SPECGRID.''))"
    by blast
  with a n show ?thesis by blast
qed

text \<open>
  C7. When \<^verbatim>\<open>createGrdecl\<close> returns and the deck has \<^verbatim>\<open>MAPAXES\<close>, the areal
  transform of the \<^verbatim>\<open>grdecl\<close> points to a block that \<^verbatim>\<open>malloc\<close> has added to
  the memory: it is the address of no block that was there before, in particular of no
  vector of an item of the \<^verbatim>\<open>MAPAXES\<close> record, the earlier blocks are unchanged,
  and the new block holds, for each item of the first record of \<^verbatim>\<open>MAPAXES\<close> in
  order, the value \<^verbatim>\<open>getSIDouble(0)\<close> of that item. When the deck has no
  \<^verbatim>\<open>MAPAXES\<close>, the areal transform is the null pointer and the memory is unchanged.
  And \<^verbatim>\<open>createGrdecl\<close> does return in both cases: when lines 180 to 200 raise
  nothing, it returns with the null pointer and the memory unchanged if the deck has no
  \<^verbatim>\<open>MAPAXES\<close>, and with the new block if the deck has \<^verbatim>\<open>MAPAXES\<close> and each item
  of its first record has a value.
\<close>

theorem mapaxes_buffer:
  "(createGrdecl h deck grdecl = (h', grdecl', None) \<longrightarrow>
      (\<not> hasKeyword deck ''MAPAXES'' \<longrightarrow> mapaxes grdecl' = None \<and> h' = h) \<and>
      (hasKeyword deck ''MAPAXES'' \<longrightarrow>
         (\<exists>k r vals. getKeyword deck ''MAPAXES'' = Inr k \<and> getRecord k 0 = Inr r \<and>
            map (\<lambda>item. getSIDouble h item 0) r = map Inr vals \<and>
            mapaxes grdecl' = Some (length h) \<and>
            h' = h @ [Malloced (map Some vals)] \<and>
            (\<forall>a. DoubleItem a \<in> set r \<longrightarrow> mapaxes grdecl' \<noteq> Some a) \<and>
            (\<forall>a<length h. mapaxes grdecl' \<noteq> Some a)))) \<and>
   (\<forall>zc co ac d.
      createGrdecl_arrays deck = Inr (zc, co, ac) \<and> createGrdecl_dims h deck = Inr d \<longrightarrow>
        (\<not> hasKeyword deck ''MAPAXES'' \<longrightarrow>
           createGrdecl h deck grdecl =
             (h, grdecl\<lparr>zcorn := Some zc, coord := Some co, actnum := ac, dims := d,
                        mapaxes := None\<rparr>, None)) \<and>
        (\<forall>k r vals. getKeyword deck ''MAPAXES'' = Inr k \<and> getRecord k 0 = Inr r \<and>
             map (\<lambda>item. getSIDouble h item 0) r = map Inr vals \<longrightarrow>
           createGrdecl h deck grdecl =
             (h @ [Malloced (map Some vals)],
              grdecl\<lparr>zcorn := Some zc, coord := Some co, actnum := ac, dims := d,
                     mapaxes := Some (length h)\<rparr>, None)))"
  using createGrdecl_returned_mapaxes[of h deck grdecl h' grdecl']
    createGrdecl_runs_mapaxes[of deck _ _ _ h _ grdecl]
  by blast

theorem mapaxes_buffer_witness:
  "createGrdecl deck_memory full_deck blank_grdecl =
     (deck_memory @ [Malloced [Some 0, Some 100, Some 0, Some 0, Some 100, Some 0]],
      \<lparr>dims = (1, 1, 1), coord = Some 1, zcorn = Some 0, actnum = Some 2,
       mapaxes = Some (length deck_memory)\<rparr>,
      None) \<and>
   hasKeyword full_deck ''MAPAXES'' \<and>
   mapaxes (\<lparr>dims = (1, 1, 1), coord = Some 1, zcorn = Some 0, actnum = Some 2,
            mapaxes = Some 15\<rparr> :: (addr option, addr option) grdecl) =
     Some (length deck_memory) \<and>
   \<not> hasKeyword (full_deck(''DIMENS'' := None, ''MAPAXES'' := None)) ''MAPAXES'' \<and>
   createGrdecl deck_memory (full_deck(''DIMENS'' := None, ''MAPAXES'' := None)) blank_grdecl =
     (deck_memory,
      \<lparr>dims = (7, 8, 9), coord = Some 1, zcorn = Some 0, actnum = Some 2, mapaxes = None\<rparr>,
      None) \<and>
   mapaxes (\<lparr>dims = (7, 8, 9), coord = Some 1, zcorn = Some 0, actnum = Some 2,
            mapaxes = None\<rparr> :: (addr option, addr option) grdecl) = None"
proof -
  let ?D = "full_deck(''DIMENS'' := None, ''MAPAXES'' := None)"
  note on_full = mapaxes_buffer [of deck_memory full_deck blank_grdecl
      "deck_memory @ [Malloced [Some 0, Some 100, Some 0, Some 0, Some 100, Some 0]]"
      "\<lparr>dims = (1, 1, 1), coord = Some 1, zcorn = Some 0, actnum = Some 2, mapaxes = Some 15\<rparr>"]
  from on_full full_deck_result full_deck_MAPAXES
  have fresh: "mapaxes (\<lparr>dims = (1, 1, 1), coord = Some 1, zcorn = Some 0, actnum = Some 2,
            mapaxes = Some 15\<rparr> :: (addr option, addr option) grdecl) =
     Some (length deck_memory)"
    by blast
  from on_full full_deck_reads
  have "createGrdecl deck_memory full_deck blank_grdecl =
     (deck_memory @ [Malloced (map Some [0, 100, 0, 0, 100, 0])],
      blank_grdecl\<lparr>zcorn := Some 0, coord := Some 1, actnum := Some 2, dims := (1, 1, 1),
                   mapaxes := Some (length deck_memory)\<rparr>, None)"
    by blast
  then have present: "createGrdecl deck_memory full_deck blank_grdecl =
     (deck_memory @ [Malloced [Some 0, Some 100, Some 0, Some 0, Some 100, Some 0]],
      \<lparr>dims = (1, 1, 1), coord = Some 1, zcorn = Some 0, actnum = Some 2,
       mapaxes = Some (length deck_memory)\<rparr>,
      None)"
    by (simp add: blank_grdecl_def)
  note on_absent = mapaxes_buffer [of deck_memory ?D blank_grdecl deck_memory
      "\<lparr>dims = (7, 8, 9), coord = Some 1, zcorn = Some 0, actnum = Some 2, mapaxes = None\<rparr>"]
  from on_absent specgrid_deck_keywords specgrid_deck_dims
  have "createGrdecl deck_memory ?D blank_grdecl =
     (deck_memory,
      blank_grdecl\<lparr>zcorn := Some 0, coord := Some 1, actnum := Some 2, dims := (7, 8, 9),
                   mapaxes := None\<rparr>, None)"
    by blast
  then have absent: "createGrdecl deck_memory ?D blank_grdecl =
     (deck_memory,
      \<lparr>dims = (7, 8, 9), coord = Some 1, zcorn = Some 0, actnum = Some 2, mapaxes = None\<rparr>,
      None)"
    by (simp add: blank_grdecl_def)
  from on_absent absent specgrid_deck_keywords
  have null: "mapaxes (\<lparr>dims = (7, 8, 9), coord = Some 1, zcorn = Some 0, actnum = Some 2,
            mapaxes = None\<rparr> :: (addr option, addr option) grdecl) = None"
    by blast
  from present full_deck_MAPAXES fresh specgrid_deck_keywords absent null
  show ?thesis by blast
qed

end
